theory Spec2Isabelle
  imports Main "HOL-Library.Word"
begin

section \<open>tracing.h: a leveled logging facility\<close>

text \<open>
  A shallow embedding of \<^verbatim>\<open>tracing.h\<close>. The enum \<^verbatim>\<open>Level\<close> is a datatype, the
  classes \<^verbatim>\<open>Record\<close> and \<^verbatim>\<open>Builder\<close> are a datatype with accessor functions and a
  record, the static member \<^verbatim>\<open>Builder::g_builder\<close> and \<^verbatim>\<open>std::cout\<close> are fields of an
  explicit program state, and the five emission constructors \<^verbatim>\<open>trace\<close> ... \<^verbatim>\<open>error\<close>
  are state transformers. The class \<^verbatim>\<open>Config\<close> is used by no other part of the header
  and has no counterpart here.
\<close>

subsection \<open>Level and its comparisons\<close>

datatype Level = Trace | Debug | Info | Warning | Error

text \<open>\<^verbatim>\<open>static_cast<uint32_t>(l)\<close>: the enumerators are numbered from \<^verbatim>\<open>Trace = 0\<close>.\<close>

fun level_code :: "Level \<Rightarrow> 32 word" where
  "level_code Trace = 0"
| "level_code Debug = 1"
| "level_code Info = 2"
| "level_code Warning = 3"
| "level_code Error = 4"

text \<open>The user-defined \<^verbatim>\<open>operator<(Level, Level)\<close>.\<close>

definition Level_less :: "Level \<Rightarrow> Level \<Rightarrow> bool" where
  "Level_less lhs rhs = (level_code lhs < level_code rhs)"

text \<open>
  The entry points write \<^verbatim>\<open>g_builder.level > Level::X\<close>. No \<^verbatim>\<open>operator>\<close> is declared
  for \<^verbatim>\<open>Level\<close>, so this is the built-in comparison of two values of one scoped
  enumeration, which compares the underlying \<^verbatim>\<open>uint32_t\<close> values.
\<close>

definition Level_greater :: "Level \<Rightarrow> Level \<Rightarrow> bool" where
  "Level_greater lhs rhs = (level_code rhs < level_code lhs)"

subsection \<open>Source locations and records\<close>

text \<open>
  \<^verbatim>\<open>std::source_location\<close>: a file name, a function name, and a line and a column of
  type \<^verbatim>\<open>uint_least32_t\<close>.
\<close>

record source_location =
  file_name :: string
  function_name :: string
  line :: "32 word"
  column :: "32 word"

text \<open>
  \<^verbatim>\<open>class Record\<close>: three private members, set by the constructor and read by
  \<^verbatim>\<open>get_level\<close>, \<^verbatim>\<open>get_args\<close> and \<^verbatim>\<open>get_loc\<close>. The datatype constructor is the C++
  constructor \<^verbatim>\<open>Record(level, args, loc)\<close>.
\<close>

datatype Record = Record Level string source_location

fun get_level :: "Record \<Rightarrow> Level" where
  "get_level (Record level args loc) = level"

fun get_args :: "Record \<Rightarrow> string" where
  "get_args (Record level args loc) = args"

fun get_loc :: "Record \<Rightarrow> source_location" where
  "get_loc (Record level args loc) = loc"

subsection \<open>The default formatter\<close>

text \<open>
  An output stream is modelled by the bytes written to it so far; \<^verbatim>\<open>os << s\<close> appends.
  The streams are in their initial formatting state (decimal, no field width) and in the
  classic \<^verbatim>\<open>"C"\<close> locale, as they are unless the program changes them.
\<close>

type_synonym ostream = string

text \<open>The escape character \<^verbatim>\<open>\033\<close> and the newline written by \<^verbatim>\<open>std::endl\<close>.\<close>

definition ESC :: char where
  "ESC = CHR 0x1B"

definition endl :: string where
  "endl = [CHR 0x0A]"

text \<open>
  \<^verbatim>\<open>ss << n\<close> for an unsigned integer: its decimal digits, most significant first, with
  no sign, padding or digit grouping.
\<close>

fun put_nat :: "nat \<Rightarrow> string" where
  "put_nat n = (if n < 10 then [char_of (48 + n)]
                else put_nat (n div 10) @ [char_of (48 + n mod 10)])"

declare put_nat.simps [simp del]

definition put_uint :: "32 word \<Rightarrow> string" where
  "put_uint w = put_nat (unat w)"

text \<open>
  \<^verbatim>\<open>default_formatter(ofs, record)\<close>: the line is assembled in a local
  \<^verbatim>\<open>std::stringstream\<close> and then written to \<^verbatim>\<open>ofs\<close> in one piece.
\<close>

definition default_formatter :: "ostream \<Rightarrow> Record \<Rightarrow> ostream" where
  "default_formatter ofs record =
    (let ss = ''['';
         ss = (case get_level record of
                 Trace \<Rightarrow> ss @ ESC # ''[37mTRACE'' @ ESC # ''[0m''
               | Debug \<Rightarrow> ss @ ESC # ''[34mDEBUG'' @ ESC # ''[0m''
               | Info \<Rightarrow> ss @ ESC # ''[32mINFO'' @ ESC # ''[0m''
               | Warning \<Rightarrow> ss @ ESC # ''[33mWARNING'' @ ESC # ''[0m''
               | Error \<Rightarrow> ss @ ESC # ''[31mERROR'' @ ESC # ''[0m'');
         ss = ss @ '' '' @ file_name (get_loc record) @ '':''
                 @ put_uint (line (get_loc record)) @ '':''
                 @ put_uint (column (get_loc record)) @ ''] '' @ get_args record
                 @ endl
     in ofs @ ss)"

subsection \<open>Builder\<close>

text \<open>
  \<^verbatim>\<open>class Builder\<close>: the minimum level and the formatter. A formatter is a
  \<^verbatim>\<open>std::function<void(std::ostream &, Record &)>\<close>. A \<^verbatim>\<open>std::function\<close> either holds
  a callable, modelled by its effect on the stream it is given, or is empty (\<open>None\<close>);
  calling an empty one throws \<^verbatim>\<open>std::bad_function_call\<close>.
\<close>

type_synonym formatter_fn = "ostream \<Rightarrow> Record \<Rightarrow> ostream"

datatype exception = Bad_function_call

record Builder =
  level :: Level
  formatter :: "formatter_fn option"

text \<open>The default constructor \<^verbatim>\<open>Builder()\<close>.\<close>

definition Builder_default :: Builder where
  "Builder_default = \<lparr>level = Warning, formatter = Some default_formatter\<rparr>"

text \<open>
  \<^verbatim>\<open>std::tolower\<close> on an \<^verbatim>\<open>unsigned char\<close> in the \<^verbatim>\<open>"C"\<close> locale: the 26 capital
  letters \<^verbatim>\<open>'A'\<close> (65) to \<^verbatim>\<open>'Z'\<close> (90) are moved down by 32, every other byte is kept.
\<close>

definition tolower :: "char \<Rightarrow> char" where
  "tolower c = (if 65 \<le> (of_char c :: nat) \<and> (of_char c :: nat) \<le> 90
                then char_of ((of_char c :: nat) + 32) else c)"

text \<open>
  A \<^verbatim>\<open>std::string_view\<close> is a pointer and a length. \<open>sv_data\<close> holds the bytes of the
  array the view points into, from \<^verbatim>\<open>data()\<close> up to the zero byte that ends the array (a
  string literal, the buffer of a \<^verbatim>\<open>std::string\<close>), that zero not included; \<open>sv_size\<close>
  is \<^verbatim>\<open>size()\<close>. The view itself is the first \<open>sv_size\<close> bytes; the array may go on
  after them, and may hold zero bytes of its own.
\<close>

record string_view =
  sv_data :: string
  sv_size :: nat

text \<open>The characters of the view: what the view names.\<close>

definition sv_chars :: "string_view \<Rightarrow> string" where
  "sv_chars name = take (sv_size name) (sv_data name)"

text \<open>
  \<^verbatim>\<open>name.data()\<close> read as a C string, as \<^verbatim>\<open>std::getenv\<close> reads its argument: the bytes
  from the pointer up to the first zero byte, whatever the length of the view.
\<close>

definition data_c_str :: "string_view \<Rightarrow> string" where
  "data_c_str name = takeWhile (\<lambda>c. c \<noteq> CHR 0x00) (sv_data name)"

text \<open>
  The view a call such as \<^verbatim>\<open>from_env("CPP_LOG")\<close> makes from a C string: it ends at the
  first zero byte.
\<close>

definition string_view_of :: "string \<Rightarrow> string_view" where
  "string_view_of cs =
     \<lparr>sv_data = cs, sv_size = length (takeWhile (\<lambda>c. c \<noteq> CHR 0x00) cs)\<rparr>"

text \<open>
  The process environment maps variable names to values; \<^verbatim>\<open>std::getenv\<close> returns a null
  pointer (\<open>None\<close>) for a name that is not set.
\<close>

type_synonym environment = "string \<rightharpoonup> string"

definition getenv :: "environment \<Rightarrow> string \<Rightarrow> string option" where
  "getenv env name = env name"

text \<open>\<^verbatim>\<open>Builder::from_env(name)\<close>, which calls \<^verbatim>\<open>std::getenv(name.data())\<close>.\<close>

definition from_env :: "environment \<Rightarrow> string_view \<Rightarrow> Builder" where
  "from_env env name =
    (let b = Builder_default in
     case getenv env (data_c_str name) of
       None \<Rightarrow> b
     | Some cpp_log \<Rightarrow>
         (let log_level = map tolower cpp_log in
          if log_level = ''trace'' then b\<lparr>level := Trace\<rparr>
          else if log_level = ''debug'' then b\<lparr>level := Debug\<rparr>
          else if log_level = ''info'' then b\<lparr>level := Info\<rparr>
          else if log_level = ''warning'' then b\<lparr>level := Warning\<rparr>
          else if log_level = ''error'' then b\<lparr>level := Error\<rparr>
          else b))"

subsection \<open>Program state and the emission entry points\<close>

text \<open>
  The calls an entry point makes, in order: \<^verbatim>\<open>std::format(fmt, args...)\<close>, the
  constructor of \<^verbatim>\<open>Record\<close>, and the call operator of the formatter of \<^verbatim>\<open>g_builder\<close>.
  The argument pack is a value of an arbitrary type \<open>'a\<close>.
\<close>

datatype 'a call =
  Call_format string 'a
| Call_Record Level string source_location
| Call_formatter Record

text \<open>
  The program state: the static member \<^verbatim>\<open>Builder::g_builder\<close>, the bytes written to
  \<^verbatim>\<open>std::cout\<close>, and the history of calls made by the entry points so far.
\<close>

record 'a state =
  g_builder :: Builder
  cout :: ostream
  calls :: "'a call list"

text \<open>
  The state at program start: \<^verbatim>\<open>inline Builder Builder::g_builder = Builder{}\<close>, and
  nothing written or called yet.
\<close>

definition initial_state :: "'a state" where
  "initial_state = \<lparr>g_builder = Builder_default, cout = [], calls = []\<rparr>"

text \<open>
  \<^verbatim>\<open>void init() { g_builder = std::move(*this); }\<close> The defaulted move assignment copies
  the level and moves the formatter, so the builder \<^verbatim>\<open>init\<close> is called on changes too: it
  keeps its level and its \<^verbatim>\<open>std::function\<close> is left empty (the standard says
  "valid but unspecified"; the implementations leave it empty). \<open>init\<close> returns the
  builder as it is after the call, and the new state.
\<close>

definition init :: "Builder \<Rightarrow> 'a state \<Rightarrow> Builder \<times> 'a state" where
  "init this s = (this\<lparr>formatter := None\<rparr>, s\<lparr>g_builder := this\<rparr>)"

text \<open>
  The five entry points. Each returns the exception it throws, if any, and the state it
  leaves. \<^verbatim>\<open>std::format\<close> belongs to the standard library and is a parameter
  \<open>std_format\<close>: the format string is checked against the argument types at compile
  time (\<^verbatim>\<open>std::format_string<Args...>\<close>), so a program that compiles has no mismatch
  between them, and rendering yields a string.
\<close>

definition trace ::
  "(string \<Rightarrow> 'a \<Rightarrow> string) \<Rightarrow> string \<Rightarrow> 'a \<Rightarrow> source_location \<Rightarrow> 'a state
     \<Rightarrow> exception option \<times> 'a state" where
  "trace std_format fmt args loc s =
    (if Level_greater (level (g_builder s)) Debug then (None, s)
     else
       let message = std_format fmt args;
           record = Record Trace message loc;
           s' = s\<lparr>calls := calls s @ [Call_format fmt args, Call_Record Trace message loc,
                                      Call_formatter record]\<rparr>
       in case formatter (g_builder s) of
            None \<Rightarrow> (Some Bad_function_call, s')
          | Some f \<Rightarrow> (None, s'\<lparr>cout := f (cout s) record\<rparr>))"

definition debug ::
  "(string \<Rightarrow> 'a \<Rightarrow> string) \<Rightarrow> string \<Rightarrow> 'a \<Rightarrow> source_location \<Rightarrow> 'a state
     \<Rightarrow> exception option \<times> 'a state" where
  "debug std_format fmt args loc s =
    (if Level_greater (level (g_builder s)) Debug then (None, s)
     else
       let message = std_format fmt args;
           record = Record Debug message loc;
           s' = s\<lparr>calls := calls s @ [Call_format fmt args, Call_Record Debug message loc,
                                      Call_formatter record]\<rparr>
       in case formatter (g_builder s) of
            None \<Rightarrow> (Some Bad_function_call, s')
          | Some f \<Rightarrow> (None, s'\<lparr>cout := f (cout s) record\<rparr>))"

definition info ::
  "(string \<Rightarrow> 'a \<Rightarrow> string) \<Rightarrow> string \<Rightarrow> 'a \<Rightarrow> source_location \<Rightarrow> 'a state
     \<Rightarrow> exception option \<times> 'a state" where
  "info std_format fmt args loc s =
    (if Level_greater (level (g_builder s)) Info then (None, s)
     else
       let message = std_format fmt args;
           record = Record Info message loc;
           s' = s\<lparr>calls := calls s @ [Call_format fmt args, Call_Record Info message loc,
                                      Call_formatter record]\<rparr>
       in case formatter (g_builder s) of
            None \<Rightarrow> (Some Bad_function_call, s')
          | Some f \<Rightarrow> (None, s'\<lparr>cout := f (cout s) record\<rparr>))"

definition warning ::
  "(string \<Rightarrow> 'a \<Rightarrow> string) \<Rightarrow> string \<Rightarrow> 'a \<Rightarrow> source_location \<Rightarrow> 'a state
     \<Rightarrow> exception option \<times> 'a state" where
  "warning std_format fmt args loc s =
    (if Level_greater (level (g_builder s)) Warning then (None, s)
     else
       let message = std_format fmt args;
           record = Record Warning message loc;
           s' = s\<lparr>calls := calls s @ [Call_format fmt args, Call_Record Warning message loc,
                                      Call_formatter record]\<rparr>
       in case formatter (g_builder s) of
            None \<Rightarrow> (Some Bad_function_call, s')
          | Some f \<Rightarrow> (None, s'\<lparr>cout := f (cout s) record\<rparr>))"

definition error ::
  "(string \<Rightarrow> 'a \<Rightarrow> string) \<Rightarrow> string \<Rightarrow> 'a \<Rightarrow> source_location \<Rightarrow> 'a state
     \<Rightarrow> exception option \<times> 'a state" where
  "error std_format fmt args loc s =
    (if Level_greater (level (g_builder s)) Error then (None, s)
     else
       let message = std_format fmt args;
           record = Record Error message loc;
           s' = s\<lparr>calls := calls s @ [Call_format fmt args, Call_Record Error message loc,
                                      Call_formatter record]\<rparr>
       in case formatter (g_builder s) of
            None \<Rightarrow> (Some Bad_function_call, s')
          | Some f \<Rightarrow> (None, s'\<lparr>cout := f (cout s) record\<rparr>))"

text \<open>The entry point of a severity: \<^verbatim>\<open>tracing::trace\<close> for \<open>Trace\<close>, and so on.\<close>

fun emit ::
  "Level \<Rightarrow> (string \<Rightarrow> 'a \<Rightarrow> string) \<Rightarrow> string \<Rightarrow> 'a \<Rightarrow> source_location \<Rightarrow> 'a state
     \<Rightarrow> exception option \<times> 'a state" where
  "emit Trace = trace"
| "emit Debug = debug"
| "emit Info = info"
| "emit Warning = warning"
| "emit Error = error"

subsection \<open>Notions of the specification\<close>

text \<open>
  The line format as the specification words it: an ANSI colour keyed by the severity,
  the display name of the level and the reset sequence.
\<close>

definition SPEC_ANSI_COLOR :: "Level \<Rightarrow> string" where
  "SPEC_ANSI_COLOR l = (case l of
      Trace \<Rightarrow> [CHR 0x1B] @ ''[37m''
    | Debug \<Rightarrow> [CHR 0x1B] @ ''[34m''
    | Info \<Rightarrow> [CHR 0x1B] @ ''[32m''
    | Warning \<Rightarrow> [CHR 0x1B] @ ''[33m''
    | Error \<Rightarrow> [CHR 0x1B] @ ''[31m'')"

definition SPEC_LEVEL_NAME :: "Level \<Rightarrow> string" where
  "SPEC_LEVEL_NAME l = (case l of
      Trace \<Rightarrow> ''TRACE'' | Debug \<Rightarrow> ''DEBUG'' | Info \<Rightarrow> ''INFO''
    | Warning \<Rightarrow> ''WARNING'' | Error \<Rightarrow> ''ERROR'')"

definition SPEC_ANSI_RESET :: string where
  "SPEC_ANSI_RESET = [CHR 0x1B] @ ''[0m''"

text \<open>
  The decimal numeral of a number, said without reference to how it is printed: a
  string is the decimal numeral of \<open>n\<close> when it is not empty, all its characters are
  digits \<^verbatim>\<open>0\<close> to \<^verbatim>\<open>9\<close>, it has no leading zero unless it is \<^verbatim>\<open>0\<close> itself, and
  the number its digits denote is \<open>n\<close>.
\<close>

definition is_digit :: "char \<Rightarrow> bool" where
  "is_digit c = (48 \<le> (of_char c :: nat) \<and> (of_char c :: nat) \<le> 57)"

definition dec_value :: "string \<Rightarrow> nat" where
  "dec_value cs = foldl (\<lambda>acc c. 10 * acc + (of_char c - 48)) 0 cs"

definition is_decimal_of :: "string \<Rightarrow> nat \<Rightarrow> bool" where
  "is_decimal_of cs n =
     (cs \<noteq> [] \<and> list_all is_digit cs \<and> (cs = ''0'' \<or> hd cs \<noteq> CHR ''0'') \<and> dec_value cs = n)"

text \<open>
  A letter-casing of a name written in small letters: the same letters in the same
  order, each one either small or capital.
\<close>

definition is_small_letter :: "char \<Rightarrow> bool" where
  "is_small_letter d = (97 \<le> (of_char d :: nat) \<and> (of_char d :: nat) \<le> 122)"

definition capital_of :: "char \<Rightarrow> char" where
  "capital_of d = char_of ((of_char d :: nat) - 32)"

definition casing_of :: "string \<Rightarrow> string \<Rightarrow> bool" where
  "casing_of s name = list_all2 (\<lambda>c d. c = d \<or> c = capital_of d) s name"

section \<open>Properties\<close>

subsection \<open>Record construction\<close>

text \<open>
  C8. The constructor of \<open>Record\<close> takes every severity, every message (the empty
  one too) and every location, and the three accessors return the values it was given.
\<close>

theorem Record_accessors:
  "get_level (Record lv msg loc) = lv \<and>
   get_args (Record lv msg loc) = msg \<and>
   get_loc (Record lv msg loc) = loc \<and>
   get_args (Record lv [] loc) = []"
  by simp

subsection \<open>The default formatter\<close>

text \<open>
  What \<open>put_nat\<close> writes is the decimal numeral of its argument, and nothing else is the
  decimal numeral of that number.
\<close>

lemma of_char_digit: "d < 10 \<Longrightarrow> (of_char (char_of (48 + d :: nat)) :: nat) = 48 + d"
  by (simp add: of_char_of)

lemma char_of_48: "char_of (48 :: nat) = CHR ''0''"
  by code_simp

lemma of_char_zero: "(of_char CHR ''0'' :: nat) = 48"
  by simp

lemma is_digit_char_of: "d < 10 \<Longrightarrow> is_digit (char_of (48 + d :: nat))"
  by (simp add: is_digit_def of_char_digit del: of_char_of)

lemma dec_value_snoc: "dec_value (cs @ [c]) = 10 * dec_value cs + (of_char c - 48)"
  by (simp add: dec_value_def)

lemma put_nat_less_10: "n < 10 \<Longrightarrow> put_nat n = [char_of (48 + n)]"
  by (subst put_nat.simps) simp

lemma put_nat_ge_10:
  "\<not> n < 10 \<Longrightarrow> put_nat n = put_nat (n div 10) @ [char_of (48 + n mod 10)]"
  by (subst put_nat.simps) simp

lemma put_nat_nonempty: "put_nat n \<noteq> []"
  by (cases "n < 10") (simp_all add: put_nat_less_10 put_nat_ge_10)

lemma dec_value_put_nat: "dec_value (put_nat n) = n"
proof (induction n rule: put_nat.induct)
  case (1 n)
  show ?case
  proof (cases "n < 10")
    case True
    then show ?thesis by (simp add: put_nat_less_10 dec_value_def of_char_digit)
  next
    case False
    have "n mod 10 < 10" by simp
    then have d: "(of_char (char_of (48 + n mod 10)) :: nat) = 48 + n mod 10"
      by (rule of_char_digit)
    from False 1 have ih: "dec_value (put_nat (n div 10)) = n div 10" by simp
    from False have "dec_value (put_nat n) = 10 * (n div 10) + n mod 10"
      by (simp add: put_nat_ge_10 dec_value_snoc ih d)
    then show ?thesis by simp
  qed
qed

lemma put_nat_digits: "list_all is_digit (put_nat n)"
proof (induction n rule: put_nat.induct)
  case (1 n)
  show ?case
  proof (cases "n < 10")
    case True
    then show ?thesis by (simp add: put_nat_less_10 is_digit_char_of)
  next
    case False
    have "is_digit (char_of (48 + n mod 10))" by (rule is_digit_char_of) simp
    with False 1 show ?thesis by (simp add: put_nat_ge_10)
  qed
qed

lemma put_nat_leading: "put_nat n = ''0'' \<or> hd (put_nat n) \<noteq> CHR ''0''"
proof (induction n rule: put_nat.induct)
  case (1 n)
  show ?case
  proof (cases "n < 10")
    case True
    show ?thesis
    proof (cases "n = 0")
      case True
      then show ?thesis by (simp add: put_nat_less_10 char_of_48)
    next
      case False
      from \<open>n < 10\<close> have "(of_char (char_of (48 + n)) :: nat) = 48 + n" by (rule of_char_digit)
      with False have "(of_char (char_of (48 + n)) :: nat) \<noteq> of_char CHR ''0''"
        by simp
      then have "char_of (48 + n) \<noteq> CHR ''0''" by (auto simp del: of_char_of)
      with \<open>n < 10\<close> show ?thesis by (simp add: put_nat_less_10)
    qed
  next
    case False
    have "put_nat (n div 10) \<noteq> ''0''"
    proof
      assume "put_nat (n div 10) = ''0''"
      then have "dec_value (put_nat (n div 10)) = dec_value ''0''" by simp
      then have "n div 10 = 0" by (simp add: dec_value_put_nat) (simp add: dec_value_def)
      with False show False by simp
    qed
    with False 1 have "hd (put_nat (n div 10)) \<noteq> CHR ''0''" by simp
    with False show ?thesis by (simp add: put_nat_ge_10 put_nat_nonempty)
  qed
qed

lemma put_nat_is_decimal: "is_decimal_of (put_nat n) n"
  using put_nat_leading [of n]
  by (simp add: is_decimal_of_def put_nat_nonempty put_nat_digits dec_value_put_nat)

lemma digit_char_of_value: "is_digit c \<Longrightarrow> char_of (48 + ((of_char c :: nat) - 48)) = c"
  by (simp add: is_digit_def)

lemma digit_value_less: "is_digit c \<Longrightarrow> (of_char c :: nat) - 48 < 10"
  unfolding is_digit_def by arith

lemma dec_value_pos:
  "cs \<noteq> [] \<Longrightarrow> list_all is_digit cs \<Longrightarrow> hd cs \<noteq> CHR ''0'' \<Longrightarrow> 0 < dec_value cs"
proof (induction cs rule: rev_induct)
  case Nil
  then show ?case by simp
next
  case (snoc c cs)
  show ?case
  proof (cases "cs = []")
    case True
    with snoc.prems have "is_digit c" "c \<noteq> CHR ''0''" by simp_all
    then have "(of_char c :: nat) \<noteq> 48" by (metis of_char_zero of_char_eq_iff)
    with \<open>is_digit c\<close> True show ?thesis by (simp add: dec_value_def is_digit_def)
  next
    case False
    with snoc have "0 < dec_value cs" by simp
    then show ?thesis by (simp add: dec_value_snoc)
  qed
qed

lemma put_nat_dec_value:
  "cs \<noteq> [] \<Longrightarrow> list_all is_digit cs \<Longrightarrow> cs = ''0'' \<or> hd cs \<noteq> CHR ''0''
     \<Longrightarrow> put_nat (dec_value cs) = cs"
proof (induction cs rule: rev_induct)
  case Nil
  then show ?case by simp
next
  case (snoc c cs)
  from snoc.prems have c: "is_digit c" by simp
  show ?case
  proof (cases "cs = []")
    case True
    with c show ?thesis
      by (simp add: dec_value_def put_nat_less_10 digit_value_less digit_char_of_value)
  next
    case False
    with snoc.prems have hd: "hd cs \<noteq> CHR ''0''" and ds: "list_all is_digit cs" by auto
    with False snoc.IH have ih: "put_nat (dec_value cs) = cs" by simp
    from False ds hd have pos: "0 < dec_value cs" by (rule dec_value_pos)
    let ?d = "(of_char c :: nat) - 48"
    from c have d: "?d < 10" by (rule digit_value_less)
    from pos have ge: "\<not> 10 * dec_value cs + ?d < 10" by simp
    from d have "(10 * dec_value cs + ?d) div 10 = dec_value cs"
      and "(10 * dec_value cs + ?d) mod 10 = ?d" by simp_all
    with put_nat_ge_10 [OF ge] ih c show ?thesis
      by (simp add: dec_value_snoc digit_char_of_value)
  qed
qed

lemma decimal_unique: "is_decimal_of cs n \<Longrightarrow> cs = put_nat n"
  using put_nat_dec_value [of cs] by (auto simp add: is_decimal_of_def)

lemma put_uint_is_decimal: "is_decimal_of (put_uint w) (unat w)"
  by (simp add: put_uint_def put_nat_is_decimal)

lemma put_uint_3: "put_uint 3 = ''3''"
  by code_simp

lemma put_uint_7: "put_uint 7 = ''7''"
  by code_simp

lemma put_uint_1234: "put_uint 1234 = ''1234''"
  by code_simp

lemma put_uint_56: "put_uint 56 = ''56''"
  by code_simp

text \<open>
  C4. For the record with level \<open>Info\<close>, location \<^verbatim>\<open>foo.ext\<close>, line 3, column 7, and
  message \<^verbatim>\<open>bar\<close>, the default formatter appends to the sink exactly the bytes
  \<^verbatim>\<open>[\x1b[32mINFO\x1b[0m foo.ext:3:7] bar\n\<close>; and for every record the line it appends
  is \<^verbatim>\<open>"[" + ANSI_COLOR + LEVEL_NAME + ANSI_RESET + " " + FILE + ":" + LINE + ":" +
  COLUMN + "] " + MESSAGE + "\n"\<close>, where \<^verbatim>\<open>LINE\<close> and \<^verbatim>\<open>COLUMN\<close> are the decimal numerals
  of the line and the column, with the colours and names of the specification. A second
  instance has numbers of several digits and an empty message.
\<close>

theorem default_formatter_output:
  "default_formatter ofs
     (Record Info ''bar'' \<lparr>file_name = ''foo.ext'', function_name = fn, line = 3, column = 7\<rparr>)
     = ofs @ ''['' @ [CHR 0x1B] @ ''[32mINFO'' @ [CHR 0x1B] @ ''[0m foo.ext:3:7] bar'' @ [CHR 0x0A]
   \<and> default_formatter ofs
     (Record Error [] \<lparr>file_name = ''src/main.cc'', function_name = fn, line = 1234, column = 56\<rparr>)
     = ofs @ ''['' @ [CHR 0x1B] @ ''[31mERROR'' @ [CHR 0x1B] @ ''[0m src/main.cc:1234:56] ''
           @ [CHR 0x0A]
   \<and> (\<exists>LINE COLUMN.
        is_decimal_of LINE (unat (line (get_loc record))) \<and>
        is_decimal_of COLUMN (unat (column (get_loc record))) \<and>
        default_formatter ofs record =
          ofs @ ''['' @ SPEC_ANSI_COLOR (get_level record) @ SPEC_LEVEL_NAME (get_level record)
              @ SPEC_ANSI_RESET @ '' '' @ file_name (get_loc record) @ '':'' @ LINE @ '':''
              @ COLUMN @ ''] '' @ get_args record @ [CHR 0x0A])
   \<and> SPEC_ANSI_COLOR Trace = [CHR 0x1B] @ ''[37m''
   \<and> SPEC_ANSI_COLOR Debug = [CHR 0x1B] @ ''[34m''
   \<and> SPEC_ANSI_COLOR Info = [CHR 0x1B] @ ''[32m''
   \<and> SPEC_ANSI_COLOR Warning = [CHR 0x1B] @ ''[33m''
   \<and> SPEC_ANSI_COLOR Error = [CHR 0x1B] @ ''[31m''
   \<and> SPEC_LEVEL_NAME Trace = ''TRACE''
   \<and> SPEC_LEVEL_NAME Debug = ''DEBUG''
   \<and> SPEC_LEVEL_NAME Info = ''INFO''
   \<and> SPEC_LEVEL_NAME Warning = ''WARNING''
   \<and> SPEC_LEVEL_NAME Error = ''ERROR''
   \<and> SPEC_ANSI_RESET = [CHR 0x1B] @ ''[0m''"
proof -
  have e1: "default_formatter ofs
     (Record Info ''bar'' \<lparr>file_name = ''foo.ext'', function_name = fn, line = 3, column = 7\<rparr>)
     = ofs @ ''['' @ [CHR 0x1B] @ ''[32mINFO'' @ [CHR 0x1B] @ ''[0m foo.ext:3:7] bar'' @ [CHR 0x0A]"
    by (simp add: default_formatter_def put_uint_3 put_uint_7 ESC_def endl_def)
  have e2: "default_formatter ofs
     (Record Error [] \<lparr>file_name = ''src/main.cc'', function_name = fn, line = 1234, column = 56\<rparr>)
     = ofs @ ''['' @ [CHR 0x1B] @ ''[31mERROR'' @ [CHR 0x1B] @ ''[0m src/main.cc:1234:56] ''
           @ [CHR 0x0A]"
    by (simp add: default_formatter_def put_uint_1234 put_uint_56 ESC_def endl_def)
  have shape: "default_formatter ofs record =
          ofs @ ''['' @ SPEC_ANSI_COLOR (get_level record) @ SPEC_LEVEL_NAME (get_level record)
              @ SPEC_ANSI_RESET @ '' '' @ file_name (get_loc record) @ '':''
              @ put_uint (line (get_loc record)) @ '':''
              @ put_uint (column (get_loc record)) @ ''] '' @ get_args record @ [CHR 0x0A]"
    by (cases "get_level record")
       (simp_all add: default_formatter_def SPEC_ANSI_COLOR_def SPEC_LEVEL_NAME_def
          SPEC_ANSI_RESET_def endl_def ESC_def)
  have ex: "\<exists>LINE COLUMN.
        is_decimal_of LINE (unat (line (get_loc record))) \<and>
        is_decimal_of COLUMN (unat (column (get_loc record))) \<and>
        default_formatter ofs record =
          ofs @ ''['' @ SPEC_ANSI_COLOR (get_level record) @ SPEC_LEVEL_NAME (get_level record)
              @ SPEC_ANSI_RESET @ '' '' @ file_name (get_loc record) @ '':'' @ LINE @ '':''
              @ COLUMN @ ''] '' @ get_args record @ [CHR 0x0A]"
    using shape put_uint_is_decimal [of "line (get_loc record)"]
      put_uint_is_decimal [of "column (get_loc record)"]
    by blast
  from e1 e2 ex show ?thesis
    by (simp only: SPEC_ANSI_COLOR_def SPEC_LEVEL_NAME_def SPEC_ANSI_RESET_def Level.case
          simp_thms)
qed

theorem default_formatter_output_witness:
  "default_formatter []
     (Record Debug ''x'' \<lparr>file_name = ''a.cc'', function_name = ''f'', line = 42, column = 120\<rparr>)
     = ''['' @ [CHR 0x1B] @ ''[34mDEBUG'' @ [CHR 0x1B] @ ''[0m a.cc:42:120] x'' @ [CHR 0x0A]"
proof -
  let ?r = "Record Debug ''x''
              \<lparr>file_name = ''a.cc'', function_name = ''f'', line = 42, column = 120\<rparr>"
  from default_formatter_output [of "[]" "''f''" ?r]
  obtain LINE COLUMN where
    l: "is_decimal_of LINE (unat (line (get_loc ?r)))" and
    c: "is_decimal_of COLUMN (unat (column (get_loc ?r)))" and
    d: "default_formatter [] ?r =
          [] @ ''['' @ SPEC_ANSI_COLOR (get_level ?r) @ SPEC_LEVEL_NAME (get_level ?r)
             @ SPEC_ANSI_RESET @ '' '' @ file_name (get_loc ?r) @ '':'' @ LINE @ '':''
             @ COLUMN @ ''] '' @ get_args ?r @ [CHR 0x0A]"
    by blast
  have p: "put_nat 42 = ''42''" "put_nat 120 = ''120''" by code_simp+
  from l have "LINE = put_nat 42" by (simp add: decimal_unique)
  with p have LINE: "LINE = ''42''" by simp
  from c have "COLUMN = put_nat 120" by (simp add: decimal_unique)
  with p have COLUMN: "COLUMN = ''120''" by simp
  from d LINE COLUMN show ?thesis
    by (simp add: SPEC_ANSI_COLOR_def SPEC_LEVEL_NAME_def SPEC_ANSI_RESET_def)
qed

subsection \<open>Configuration from the environment\<close>

lemma tolower_eq_small_letter:
  assumes "is_small_letter d"
  shows "(tolower c = d) = (c = d \<or> c = capital_of d)"
proof -
  let ?n = "of_char c :: nat" and ?m = "of_char d :: nat"
  have m: "?m < 256" by (rule nat_of_char_less_256)
  from assms have d: "97 \<le> ?m" "?m \<le> 122" by (simp_all add: is_small_letter_def)
  have cd: "(c = d) = (?n = ?m)" by simp
  have cap: "(c = capital_of d) = (?n = ?m - 32)"
  proof
    assume "c = capital_of d"
    then have "?n = (?m - 32) mod 256" by (simp add: capital_of_def of_char_of)
    moreover from m have "?m - 32 < 256" by arith
    ultimately show "?n = ?m - 32" by (simp only: mod_less)
  next
    assume "?n = ?m - 32"
    then have "char_of ?n = (char_of (?m - 32) :: char)" by simp
    then show "c = capital_of d" by (simp add: capital_of_def)
  qed
  show ?thesis
  proof (cases "65 \<le> ?n \<and> ?n \<le> 90")
    case True
    then have "tolower c = char_of (?n + 32)" by (simp add: tolower_def)
    then have "(tolower c = d) = (char_of (?n + 32) = (char_of ?m :: char))" by simp
    also have "\<dots> = ((?n + 32) mod 256 = ?m mod 256)" by (rule char_of_quasi_inj)
    also from True m have "\<dots> = (?n + 32 = ?m)" by simp
    finally show ?thesis using True d cd cap by auto
  next
    case False
    then have "tolower c = c" by (auto simp add: tolower_def)
    with False d cd cap show ?thesis by auto
  qed
qed

lemma map_tolower_eq_casing:
  "list_all is_small_letter name \<Longrightarrow> (map tolower s = name) = casing_of s name"
proof (induction s arbitrary: name)
  case Nil
  then show ?case by (auto simp add: casing_of_def)
next
  case (Cons c s)
  show ?case
  proof (cases name)
    case Nil
    then show ?thesis by (simp add: casing_of_def)
  next
    case (Cons d ds)
    with Cons.prems have "is_small_letter d" "list_all is_small_letter ds" by simp_all
    with Cons.IH [of ds] tolower_eq_small_letter [of d c] Cons show ?thesis
      by (simp add: casing_of_def)
  qed
qed

lemma casing_names:
  "casing_of v ''trace'' = (map tolower v = ''trace'')"
  "casing_of v ''debug'' = (map tolower v = ''debug'')"
  "casing_of v ''info'' = (map tolower v = ''info'')"
  "casing_of v ''warning'' = (map tolower v = ''warning'')"
  "casing_of v ''error'' = (map tolower v = ''error'')"
  by (rule map_tolower_eq_casing [symmetric], simp add: is_small_letter_def)+

text \<open>
  For a view made from a C string, the C string at \<^verbatim>\<open>data()\<close> is the view itself; for
  other views it need not be.
\<close>

lemma data_c_str_string_view_of: "data_c_str (string_view_of cs) = sv_chars (string_view_of cs)"
  by (simp add: data_c_str_def sv_chars_def string_view_of_def) (rule takeWhile_eq_take)

lemma data_c_str_literal: "data_c_str (string_view_of ''CPP_LOG'') = ''CPP_LOG''"
  by (simp add: data_c_str_def string_view_of_def)

lemma from_env_debug:
  "from_env [''CPP_LOG'' \<mapsto> ''debug''] (string_view_of ''CPP_LOG'') =
     \<lparr>level = Debug, formatter = Some default_formatter\<rparr>"
  by (simp add: from_env_def getenv_def data_c_str_literal tolower_def Builder_default_def)

lemma from_env_no_value:
  "getenv env (data_c_str name) = None \<Longrightarrow> from_env env name = Builder_default"
  by (simp add: from_env_def)

lemma from_env_unset_c_string:
  "getenv env (sv_chars (string_view_of cs)) = None \<Longrightarrow>
     from_env env (string_view_of cs) = Builder_default"
  by (simp add: from_env_def data_c_str_string_view_of)

text \<open>
  C5. When the value that \<^verbatim>\<open>std::getenv(name.data())\<close> returns is one of the names
  \<^verbatim>\<open>trace\<close>, \<^verbatim>\<open>debug\<close>, \<^verbatim>\<open>info\<close>, \<^verbatim>\<open>warning\<close>, \<^verbatim>\<open>error\<close> in any letter-casing,
  \<open>from_env\<close> returns a configuration with the matching level; when it is any other
  string, the level is the one the default configuration has, \<open>Warning\<close>. \<open>from_env\<close>
  is a total function: no value of the variable makes it fail.
\<close>

theorem from_env_level_names:
  assumes "getenv env (data_c_str name) = Some v"
  shows "(casing_of v ''trace'' \<longrightarrow> level (from_env env name) = Trace) \<and>
         (casing_of v ''debug'' \<longrightarrow> level (from_env env name) = Debug) \<and>
         (casing_of v ''info'' \<longrightarrow> level (from_env env name) = Info) \<and>
         (casing_of v ''warning'' \<longrightarrow> level (from_env env name) = Warning) \<and>
         (casing_of v ''error'' \<longrightarrow> level (from_env env name) = Error) \<and>
         (\<not> casing_of v ''trace'' \<and> \<not> casing_of v ''debug'' \<and> \<not> casing_of v ''info'' \<and>
          \<not> casing_of v ''warning'' \<and> \<not> casing_of v ''error'' \<longrightarrow>
            level (from_env env name) = level Builder_default \<and>
            level Builder_default = Warning)"
  using assms
  by (simp add: from_env_def Builder_default_def Let_def casing_names)

theorem from_env_level_names_witness:
  "level (from_env [''CPP_LOG'' \<mapsto> ''TrAcE''] (string_view_of ''CPP_LOG'')) = Trace \<and>
   level (from_env [''CPP_LOG'' \<mapsto> ''DEBUG''] (string_view_of ''CPP_LOG'')) = Debug \<and>
   level (from_env [''CPP_LOG'' \<mapsto> ''Info''] (string_view_of ''CPP_LOG'')) = Info \<and>
   level (from_env [''CPP_LOG'' \<mapsto> ''warninG''] (string_view_of ''CPP_LOG'')) = Warning \<and>
   level (from_env [''CPP_LOG'' \<mapsto> ''error''] (string_view_of ''CPP_LOG'')) = Error \<and>
   level (from_env [''CPP_LOG'' \<mapsto> ''verbose''] (string_view_of ''CPP_LOG'')) = Warning \<and>
   level (from_env [''CPP_LOG'' \<mapsto> []] (string_view_of ''CPP_LOG'')) = Warning \<and>
   level (from_env [''CPP_LOG'' \<mapsto> ''DEBUG'']
            \<lparr>sv_data = ''CPP_LOG'' @ [CHR 0x00] @ ''junk'', sv_size = 12\<rparr>) = Debug"
proof -
  have c: "casing_of ''TrAcE'' ''trace''" "casing_of ''DEBUG'' ''debug''"
    "casing_of ''Info'' ''info''" "casing_of ''warninG'' ''warning''"
    "casing_of ''error'' ''error''"
    by code_simp+
  have n: "\<not> casing_of ''verbose'' ''trace''" "\<not> casing_of ''verbose'' ''debug''"
    "\<not> casing_of ''verbose'' ''info''" "\<not> casing_of ''verbose'' ''warning''"
    "\<not> casing_of ''verbose'' ''error''"
    "\<not> casing_of [] ''trace''" "\<not> casing_of [] ''debug''"
    "\<not> casing_of [] ''info''" "\<not> casing_of [] ''warning''"
    "\<not> casing_of [] ''error''"
    by code_simp+
  have g: "\<And>v. getenv [''CPP_LOG'' \<mapsto> v] (data_c_str (string_view_of ''CPP_LOG'')) = Some v"
    by (simp add: getenv_def data_c_str_literal)
  have h: "getenv [''CPP_LOG'' \<mapsto> ''DEBUG'']
             (data_c_str \<lparr>sv_data = ''CPP_LOG'' @ [CHR 0x00] @ ''junk'', sv_size = 12\<rparr>)
           = Some ''DEBUG''"
    by (simp add: getenv_def data_c_str_def)
  show ?thesis
    using from_env_level_names [OF g, of "''TrAcE''"] from_env_level_names [OF g, of "''DEBUG''"]
      from_env_level_names [OF g, of "''Info''"] from_env_level_names [OF g, of "''warninG''"]
      from_env_level_names [OF g, of "''error''"] from_env_level_names [OF g, of "''verbose''"]
      from_env_level_names [OF g, of "[]"] from_env_level_names [OF h] c n
    by simp
qed

text \<open>
  C6. When the named environment variable is not set, \<open>from_env\<close> is to return the
  default configuration. The code does not do this for every name: it hands
  \<^verbatim>\<open>name.data()\<close> to \<^verbatim>\<open>std::getenv\<close>, which reads to the first zero byte and not to the
  end of the view. For the view of the first seven characters of \<^verbatim>\<open>CPP_LOGXYZ\<close> the
  variable named, \<^verbatim>\<open>CPP_LOG\<close>, is not set, and \<open>from_env\<close> returns the level of the
  variable \<^verbatim>\<open>CPP_LOGXYZ\<close>. For a view made from a C string the named variable is the one
  read (\<open>from_env_unset_c_string\<close>).
\<close>

theorem from_env_reads_past_view:
  "sv_chars \<lparr>sv_data = ''CPP_LOGXYZ'', sv_size = 7\<rparr> = ''CPP_LOG'' \<and>
   getenv [''CPP_LOGXYZ'' \<mapsto> ''error'']
     (sv_chars \<lparr>sv_data = ''CPP_LOGXYZ'', sv_size = 7\<rparr>) = None \<and>
   level (from_env [''CPP_LOGXYZ'' \<mapsto> ''error'']
            \<lparr>sv_data = ''CPP_LOGXYZ'', sv_size = 7\<rparr>) = Error \<and>
   level Builder_default = Warning"
  by (simp add: sv_chars_def getenv_def from_env_def data_c_str_def tolower_def
        Builder_default_def)

text \<open>
  C10. Whatever the environment holds (the variable not set, set to a level name, or set
  to any other string), the configuration \<open>from_env\<close> returns has the default
  formatter: it is the default configuration with at most the level changed.
\<close>

theorem from_env_keeps_formatter:
  "formatter (from_env env name) = Some default_formatter \<and>
   formatter (from_env env name) = formatter Builder_default \<and>
   from_env env name = Builder_default\<lparr>level := level (from_env env name)\<rparr>"
  by (simp add: from_env_def Builder_default_def Let_def split: option.split)

subsection \<open>Filtering by the entry points\<close>

text \<open>
  An entry point that returns early leaves the state as it is; one that goes on adds its
  three calls to the history, so the state it leaves differs from the one it was given.
\<close>

lemma state_calls_neq:
  "xs \<noteq> [] \<Longrightarrow> s\<lparr>calls := calls s @ xs\<rparr> \<noteq> s"
  "xs \<noteq> [] \<Longrightarrow> s\<lparr>calls := calls s @ xs, cout := c\<rparr> \<noteq> s"
proof -
  assume xs: "xs \<noteq> []"
  show "s\<lparr>calls := calls s @ xs\<rparr> \<noteq> s"
  proof
    assume "s\<lparr>calls := calls s @ xs\<rparr> = s"
    then have "calls (s\<lparr>calls := calls s @ xs\<rparr>) = calls s" by simp
    with xs show False by simp
  qed
  show "s\<lparr>calls := calls s @ xs, cout := c\<rparr> \<noteq> s"
  proof
    assume "s\<lparr>calls := calls s @ xs, cout := c\<rparr> = s"
    then have "calls (s\<lparr>calls := calls s @ xs, cout := c\<rparr>) = calls s" by simp
    with xs show False by simp
  qed
qed

lemma trace_suppressed_iff:
  "(trace std_format fmt args loc s = (None, s)) = Level_greater (level (g_builder s)) Debug"
  by (simp add: trace_def Let_def state_calls_neq split: option.split)

lemma debug_suppressed_iff:
  "(debug std_format fmt args loc s = (None, s)) = Level_greater (level (g_builder s)) Debug"
  by (simp add: debug_def Let_def state_calls_neq split: option.split)

lemma info_suppressed_iff:
  "(info std_format fmt args loc s = (None, s)) = Level_greater (level (g_builder s)) Info"
  by (simp add: info_def Let_def state_calls_neq split: option.split)

lemma warning_suppressed_iff:
  "(warning std_format fmt args loc s = (None, s)) =
     Level_greater (level (g_builder s)) Warning"
  by (simp add: warning_def Let_def state_calls_neq split: option.split)

lemma error_suppressed_iff:
  "(error std_format fmt args loc s = (None, s)) = Level_greater (level (g_builder s)) Error"
  by (simp add: error_def Let_def state_calls_neq split: option.split)

lemmas suppressed_iff = trace_suppressed_iff debug_suppressed_iff info_suppressed_iff
  warning_suppressed_iff error_suppressed_iff

text \<open>
  The entry points for \<open>Debug\<close>, \<open>Info\<close>, \<open>Warning\<close> and \<open>Error\<close> return early exactly
  when their severity is below the configured level; \<open>trace\<close> returns early exactly when
  \<open>Debug\<close> is below the configured level.
\<close>

lemma emit_filter_above_Trace:
  "M \<noteq> Trace \<Longrightarrow>
     (emit M std_format fmt args loc s = (None, s)) = Level_less M (level (g_builder s))"
  by (cases M; cases "level (g_builder s)")
     (simp_all add: suppressed_iff Level_greater_def Level_less_def)

lemma emit_filter_Trace:
  "(emit Trace std_format fmt args loc s = (None, s)) = Level_less Debug (level (g_builder s))"
  by (simp add: suppressed_iff Level_greater_def Level_less_def)


lemma emit_empty_formatter:
  "emit M std_format fmt args loc s \<noteq> (None, s) \<Longrightarrow> formatter (g_builder s) = None \<Longrightarrow>
     emit M std_format fmt args loc s =
       (Some Bad_function_call,
        s\<lparr>calls := calls s @ [Call_format fmt args, Call_Record M (std_format fmt args) loc,
                              Call_formatter (Record M (std_format fmt args) loc)]\<rparr>)"
  by (cases M)
     (simp_all add: trace_def debug_def info_def warning_def error_def Let_def split: if_splits)


text \<open>
  A builder that \<open>init\<close> was called on is left with an empty formatter, and a second
  \<open>init\<close> on it installs that.
\<close>

lemma init_twice:
  "formatter (fst (init b s)) = None \<and>
   level (fst (init b s)) = level b \<and>
   g_builder (snd (init (fst (init b s)) (snd (init b s)))) = b\<lparr>formatter := None\<rparr>"
  by (simp add: init_def)

text \<open>
  C1. A message of severity \<open>M\<close> is emitted if and only if \<open>M\<close> is not below the
  configured level. The entry point \<open>trace\<close> does not do this: with the level \<open>Debug\<close>
  configured, as \<^verbatim>\<open>CPP_LOG=debug\<close> does, \<open>Trace\<close> is below the configured level and
  \<open>trace\<close> still renders the message, constructs the record and calls the formatter.
\<close>

theorem trace_emitted_under_Debug:
  "Level_less Trace Debug \<and>
   level (g_builder (snd (init (from_env [''CPP_LOG'' \<mapsto> ''debug''] (string_view_of ''CPP_LOG''))
     (initial_state :: unit state)))) = Debug \<and>
   fst (trace (\<lambda>fmt args. fmt) ''m'' ()
      \<lparr>file_name = ''a.cc'', function_name = ''main'', line = 3, column = 7\<rparr>
      (snd (init (from_env [''CPP_LOG'' \<mapsto> ''debug''] (string_view_of ''CPP_LOG''))
         initial_state))) = None \<and>
   calls (snd (trace (\<lambda>fmt args. fmt) ''m'' ()
      \<lparr>file_name = ''a.cc'', function_name = ''main'', line = 3, column = 7\<rparr>
      (snd (init (from_env [''CPP_LOG'' \<mapsto> ''debug''] (string_view_of ''CPP_LOG''))
         initial_state))))
     = [Call_format ''m'' (),
        Call_Record Trace ''m''
          \<lparr>file_name = ''a.cc'', function_name = ''main'', line = 3, column = 7\<rparr>,
        Call_formatter (Record Trace ''m''
          \<lparr>file_name = ''a.cc'', function_name = ''main'', line = 3, column = 7\<rparr>)]"
  by (simp add: from_env_debug init_def initial_state_def trace_def Level_less_def
        Level_greater_def Let_def)

text \<open>
  C2. An entry point whose severity is below the configured level returns at once and
  nothing is written. The entry point \<open>trace\<close> does not do this: with the level \<open>Debug\<close>
  configured and nothing written yet, \<open>trace\<close> writes a \<^verbatim>\<open>TRACE\<close> line to
  \<^verbatim>\<open>std::cout\<close>.
\<close>

theorem trace_writes_under_Debug:
  "Level_less Trace Debug \<and>
   cout (snd (init (from_env [''CPP_LOG'' \<mapsto> ''debug''] (string_view_of ''CPP_LOG''))
     (initial_state :: unit state))) = [] \<and>
   fst (trace (\<lambda>fmt (args :: unit). fmt) ''m'' ()
      \<lparr>file_name = ''a.cc'', function_name = ''main'', line = 3, column = 7\<rparr>
      (snd (init (from_env [''CPP_LOG'' \<mapsto> ''debug''] (string_view_of ''CPP_LOG''))
         initial_state))) = None \<and>
   cout (snd (trace (\<lambda>fmt (args :: unit). fmt) ''m'' ()
      \<lparr>file_name = ''a.cc'', function_name = ''main'', line = 3, column = 7\<rparr>
      (snd (init (from_env [''CPP_LOG'' \<mapsto> ''debug''] (string_view_of ''CPP_LOG''))
         initial_state))))
     = ''['' @ [CHR 0x1B] @ ''[37mTRACE'' @ [CHR 0x1B] @ ''[0m a.cc:3:7] m'' @ [CHR 0x0A]"
  by (simp add: from_env_debug init_def initial_state_def trace_def Level_less_def
        Level_greater_def Let_def default_formatter_def put_uint_3 put_uint_7 ESC_def endl_def)



text \<open>
  C9. Under every configuration \<open>trace\<close> is suppressed if and only if \<open>debug\<close> is: each
  of the two returns early exactly when the configured level is above \<open>Debug\<close>.
\<close>

theorem trace_same_filter_as_debug:
  "(trace std_format fmt args loc s = (None, s)) =
     (debug std_format' fmt' args' loc' s = (None, s)) \<and>
   (trace std_format fmt args loc s = (None, s)) =
     Level_greater (level (g_builder s)) Debug \<and>
   (debug std_format' fmt' args' loc' s = (None, s)) =
     Level_greater (level (g_builder s)) Debug"
  by (simp add: suppressed_iff)

subsection \<open>The process-wide configuration\<close>



end
